theory Spec2Isabelle
  imports Main "HOL-Library.Multiset" "HOL-Library.Sublist"
begin

section \<open>Errors, panics and calls that do not return\<close>

text \<open>
  Go errors are values. The file under study returns two sentinel errors of the runtime
  package, compares against one sentinel of the api package, and passes every other error
  of the cluster client through. \<open>Error_text\<close> is the method \<^verbatim>\<open>err.Error()\<close>; the
  sentinels are declared outside the file, their messages are the ones of those packages.
\<close>

datatype error =
    ErrInvalidResource
  | ErrNotFound
  | api_ErrNotFound
  | errors_New string

fun Error_text :: "error \<Rightarrow> string" where
  "Error_text ErrInvalidResource = ''invalid resource''"
| "Error_text ErrNotFound = ''not found''"
| "Error_text api_ErrNotFound = ''kubernetes: resource not found''"
| "Error_text (errors_New msg) = msg"

text \<open>Run-time panics the file can raise.\<close>

datatype panic =
    IndexOutOfRange
  | NilPointerDereference
  | CloseOfNilChannel
  | CloseOfClosedChannel

text \<open>
  A call either returns, or panics, or blocks for ever on a lock that its own caller
  holds (\<^verbatim>\<open>sync.RWMutex\<close> is not reentrant).
\<close>

datatype 'a outcome = Returns 'a | Panics panic | Blocks

section \<open>Library functions\<close>

text \<open>
  Strings are byte strings. \<^verbatim>\<open>strings.ToLower\<close> lowers the letters A to Z when every byte
  of its argument is below 0x80; otherwise it maps every rune through the Unicode tables,
  which are taken as the parameter \<open>unicode_ToLower\<close>. The client package's
  \<^verbatim>\<open>SerializeResourceName\<close>, \<^verbatim>\<open>Format\<close> and \<^verbatim>\<open>DefaultNamespace\<close> and the runtime
  package's constructor \<^verbatim>\<open>NewNetworkPolicy\<close> (a network policy has a name, a namespace
  and labels) are declared outside the file and are parameters as well.
\<close>

record NetworkPolicy =
  np_Name :: string
  np_Namespace :: string
  np_AllowedLabels :: "string \<rightharpoonup> string"

record lib =
  unicode_ToLower :: "string \<Rightarrow> string"
  SerializeResourceName :: "string \<Rightarrow> string"
  Format :: "string \<Rightarrow> string"
  DefaultNamespace :: string
  NewNetworkPolicy :: "string \<Rightarrow> string \<Rightarrow> (string \<rightharpoonup> string) \<Rightarrow> error + NetworkPolicy"

definition isASCII :: "string \<Rightarrow> bool" where
  "isASCII s = list_all (\<lambda>c. (of_char c :: nat) < 128) s"

definition toLowerByte :: "char \<Rightarrow> char" where
  "toLowerByte c =
     (let n = (of_char c :: nat) in if 65 \<le> n \<and> n \<le> 90 then char_of (n + 32) else c)"

definition ToLower :: "lib \<Rightarrow> string \<Rightarrow> string" where
  "ToLower L s = (if isASCII s then map toLowerByte s else unicode_ToLower L s)"

text \<open>\<^verbatim>\<open>strings.Contains\<close>.\<close>

fun Contains :: "string \<Rightarrow> string \<Rightarrow> bool" where
  "Contains [] substr = (substr = [])"
| "Contains (c # s) substr = (prefix substr (c # s) \<or> Contains s substr)"

text \<open>The verb \<^verbatim>\<open>%d\<close> of \<^verbatim>\<open>fmt.Sprintf\<close>: a decimal numeral, with a sign when negative.\<close>

fun decimal :: "nat \<Rightarrow> string" where
  "decimal n =
     (if n < 10 then [char_of (48 + n)] else decimal (n div 10) @ [char_of (48 + n mod 10)])"

definition Sprintf_d :: "int \<Rightarrow> string" where
  "Sprintf_d i = (if i < 0 then CHR ''-'' # decimal (nat (- i)) else decimal (nat i))"

text \<open>A read of a Go map: the zero value (the empty string) for a missing key.\<close>

definition index :: "(string \<rightharpoonup> string) \<Rightarrow> string \<Rightarrow> string" where
  "index m k = (case m k of None \<Rightarrow> [] | Some v \<Rightarrow> v)"

section \<open>Status transformer\<close>

text \<open>
  Modelled from the spec: the type \<^verbatim>\<open>runtime.ServiceStatus\<close> is declared in the runtime
  package; section 3 gives it as the closed enumeration below.
\<close>

datatype ServiceStatus = Unknown | Starting | Running | Stopped | Error

definition transformStatus :: "lib \<Rightarrow> string \<Rightarrow> ServiceStatus" where
  "transformStatus L depStatus =
     (let s = ToLower L depStatus in
      if s = ''pending'' then Starting
      else if s = ''containercreating'' then Starting
      else if s = ''imagepullbackoff'' then Error
      else if s = ''crashloopbackoff'' then Error
      else if s = ''error'' then Error
      else if s = ''running'' then Running
      else if s = ''available'' then Running
      else if s = ''succeeded'' then Stopped
      else if s = ''failed'' then Error
      else if s = ''waiting'' then Starting
      else if s = ''terminated'' then Stopped
      else Unknown)"

section \<open>Native object views and logical services\<close>

text \<open>
  Modelled from the spec: the object types of the client package (Service, Deployment, Pod
  and their parts) are declared outside the file. Section 3 describes them as read-only
  projections carrying labels, annotations, spec and the status or condition list; the
  fields below are the ones the file reads. \<open>ks_Ports\<close> holds the port number of each
  declared port, \<open>kp_Containers\<close> the state of each container status.
\<close>

record Condition =
  Started :: string

record ContainerState =
  cs_Running :: "Condition option"
  cs_Waiting :: "Condition option"

record DeploymentCondition =
  dc_LastUpdateTime :: string
  dc_Type :: string

record kService =
  ks_Labels :: "string \<rightharpoonup> string"
  ks_Annotations :: "string \<rightharpoonup> string"
  ks_ClusterIP :: string
  ks_Ports :: "int list"

record kDeployment =
  kd_Labels :: "string \<rightharpoonup> string"
  kd_Annotations :: "string \<rightharpoonup> string"
  kd_Conditions :: "DeploymentCondition list"
  kd_TemplateAnnotations :: "string \<rightharpoonup> string"

record kPod =
  kp_Labels :: "string \<rightharpoonup> string"
  kp_Phase :: string
  kp_Containers :: "ContainerState list"

text \<open>
  Modelled from the spec: \<^verbatim>\<open>runtime.Service\<close> and the package's \<^verbatim>\<open>service\<close> type (the
  logical service of section 3: the public fields, a derived status and two back-references)
  are declared outside the file. \<open>Status\<close> is \<open>None\<close> while the field still holds the
  zero value of its type, that is, while nothing has assigned it. A back-reference holds
  the value its loop variable has at the assignment.
\<close>

record runtime_Service =
  Name :: string
  Version :: string
  Source :: string
  Metadata :: "string \<rightharpoonup> string"
  Status :: "ServiceStatus option"

record service =
  Service :: runtime_Service
  kservice :: "kService option"
  kdeploy :: "kDeployment option"

definition set_Metadata :: "string \<Rightarrow> string \<Rightarrow> service \<Rightarrow> service" where
  "set_Metadata key v svc =
     svc\<lparr>Service := (Service svc)\<lparr>Metadata := (Metadata (Service svc))(key \<mapsto> v)\<rparr>\<rparr>"

text \<open>
  Modelled from the spec: the method \<^verbatim>\<open>Status\<close> of the \<^verbatim>\<open>service\<close> type is declared
  outside the file; it records the derived status. Every call in the file passes a nil
  error.
\<close>

definition service_Status :: "ServiceStatus \<Rightarrow> service \<Rightarrow> service" where
  "service_Status status svc = svc\<lparr>Service := (Service svc)\<lparr>Status := Some status\<rparr>\<rparr>"

section \<open>The cluster client and the rest of the package\<close>

datatype GetOption = GetNamespace string | GetLabels "string \<rightharpoonup> string"

record Secret =
  sec_Type :: string
  sec_Data :: "string \<rightharpoonup> string"
  sec_Name :: string
  sec_Namespace :: string

datatype Value = NamespaceValue string | SecretValue Secret | NoValue

record Resource =
  r_Kind :: string
  r_Name :: string
  r_Value :: Value

text \<open>
  Modelled from the spec: the resource types and option bundles of the runtime package
  (section 6).
\<close>

record Namespace =
  ns_Name :: string

record Options =
  o_Type :: string
  o_Image :: string
  o_Source :: string

record CreateOptions =
  co_Type :: string
  co_Namespace :: string
  co_Image :: string
  co_Secrets :: "string \<rightharpoonup> string"

type_synonym CreateOption = "CreateOptions \<Rightarrow> CreateOptions"

record UpdateOptions =
  uo_Namespace :: string

type_synonym UpdateOption = "UpdateOptions \<Rightarrow> UpdateOptions"

record DeleteOptions =
  do_Namespace :: string

type_synonym DeleteOption = "DeleteOptions \<Rightarrow> DeleteOptions"

record LogsOptions =
  lo_Stream :: bool
  lo_Count :: int

type_synonym LogsOption = "LogsOptions \<Rightarrow> LogsOptions"

record LogRecord =
  log_Message :: string

text \<open>
  A resource is a value of the interface \<^verbatim>\<open>runtime.Resource\<close>: one of the three resource
  types of the runtime package, whose \<^verbatim>\<open>Type\<close> method returns the type's own tag, or a
  value of any other type, of which only the tag its \<^verbatim>\<open>Type\<close> method returns matters
  (\<open>TypeOther\<close> stands for every tag that is none of the three).
\<close>

datatype ResourceType = TypeNamespace | TypeNetworkPolicy | TypeService | TypeOther string

datatype runtime_Resource =
    NamespaceResource Namespace
  | NetworkPolicyResource NetworkPolicy
  | ServiceResource runtime_Service
  | ForeignResource ResourceType

fun resource_Type :: "runtime_Resource \<Rightarrow> ResourceType" where
  "resource_Type (NamespaceResource n) = TypeNamespace"
| "resource_Type (NetworkPolicyResource n) = TypeNetworkPolicy"
| "resource_Type (ServiceResource s) = TypeService"
| "resource_Type (ForeignResource t) = t"

text \<open>
  The log stream of the file: its fields \<^verbatim>\<open>stream\<close>, \<^verbatim>\<open>stop\<close> and \<^verbatim>\<open>err\<close> and its
  mutex. A channel is nil, open or closed; \<open>s_mu\<close> tells whether the mutex is held.
\<close>

datatype chan = NilChan | OpenChan | ClosedChan

record kubeStream =
  s_stream :: chan
  s_mu :: bool
  s_stop :: chan
  s_err :: "error option"

text \<open>
  The mutating calls that leave the file, in the order they are issued. The reads
  (\<^verbatim>\<open>List\<close>, \<^verbatim>\<open>Get\<close>, the log reader) do not change the cluster and are not recorded.
\<close>

datatype call =
    Call_Create Resource string
  | Call_Delete Resource string
  | Call_createNamespace Namespace
  | Call_createNetworkPolicy NetworkPolicy
  | Call_updateNetworkPolicy NetworkPolicy
  | Call_deleteNamespace Namespace
  | Call_deleteNetworkPolicy NetworkPolicy
  | Call_Start runtime_Service CreateOptions
  | Call_Stop runtime_Service CreateOptions
  | Call_Update service string

text \<open>
  The collaborators of the file, as parameters over the state \<open>'u\<close> of the cluster: the
  client interface (\<open>c_\<close>), and the functions and methods of the same package that live in
  other files (\<open>p_\<close>): the namespace and network-policy helpers, the \<^verbatim>\<open>Start\<close>,
  \<^verbatim>\<open>Stop\<close> and \<^verbatim>\<open>Update\<close> methods of a service built by \<^verbatim>\<open>newService\<close>, and the log
  accessor built by \<^verbatim>\<open>newLog\<close> (its streaming option, its \<^verbatim>\<open>Read\<close> and its
  \<^verbatim>\<open>Stream\<close>). \<open>c_List\<close> returns the \<^verbatim>\<open>Items\<close> slice of the namespace list, by
  names, \<open>None\<close> being the nil slice. \<open>time_Now_Unix\<close> reads the clock.
\<close>

record 'u env =
  library :: lib
  c_List :: "'u \<Rightarrow> error + string list option"
  c_Get_service :: "GetOption list \<Rightarrow> 'u \<Rightarrow> error + kService list"
  c_Get_deployment :: "GetOption list \<Rightarrow> 'u \<Rightarrow> error + kDeployment list"
  c_Get_pod :: "GetOption list \<Rightarrow> 'u \<Rightarrow> error + kPod list"
  c_Create :: "Resource \<Rightarrow> string \<Rightarrow> 'u \<Rightarrow> error option \<times> 'u"
  c_Delete :: "Resource \<Rightarrow> string \<Rightarrow> 'u \<Rightarrow> error option \<times> 'u"
  p_createNamespace :: "Namespace \<Rightarrow> 'u \<Rightarrow> error option \<times> 'u"
  p_createNetworkPolicy :: "NetworkPolicy \<Rightarrow> 'u \<Rightarrow> error option \<times> 'u"
  p_updateNetworkPolicy :: "NetworkPolicy \<Rightarrow> 'u \<Rightarrow> error option \<times> 'u"
  p_deleteNamespace :: "Namespace \<Rightarrow> 'u \<Rightarrow> error option \<times> 'u"
  p_deleteNetworkPolicy :: "NetworkPolicy \<Rightarrow> 'u \<Rightarrow> error option \<times> 'u"
  p_Start :: "runtime_Service \<Rightarrow> CreateOptions \<Rightarrow> 'u \<Rightarrow> error option \<times> 'u"
  p_Stop :: "runtime_Service \<Rightarrow> CreateOptions \<Rightarrow> 'u \<Rightarrow> error option \<times> 'u"
  p_Update :: "service \<Rightarrow> string \<Rightarrow> 'u \<Rightarrow> error option \<times> 'u"
  p_log_options_Stream :: "LogsOption list \<Rightarrow> bool"
  p_log_Read :: "string \<Rightarrow> LogsOption list \<Rightarrow> 'u \<Rightarrow> error + LogRecord list"
  p_log_Stream :: "string \<Rightarrow> LogsOption list \<Rightarrow> 'u \<Rightarrow> error + kubeStream"
  time_Now_Unix :: "'u \<Rightarrow> int"

record 'u world =
  upstream :: 'u
  issued :: "call list"

definition issue :: "call \<Rightarrow> ('u \<Rightarrow> error option \<times> 'u) \<Rightarrow> 'u world \<Rightarrow> error option \<times> 'u world" where
  "issue c f w =
     (case f (upstream w) of (err, u) \<Rightarrow> (err, \<lparr>upstream = u, issued = issued w @ [c]\<rparr>))"

section \<open>Service correlator\<close>

text \<open>The body of the loop over the listed services ("collect info from kubernetes service").\<close>

definition new_service :: "kService \<Rightarrow> int \<Rightarrow> service" where
  "new_service ksvc port =
     (let name = index (ks_Labels ksvc) ''name'';
          version = index (ks_Labels ksvc) ''version'';
          address = ks_ClusterIP ksvc;
          md = [''address'' \<mapsto> address @ '':'' @ Sprintf_d port,
                ''type'' \<mapsto> index (ks_Labels ksvc) ''micro'']
      in \<lparr>Service = \<lparr>Name = name, Version = version, Source = [],
                       Metadata = md ++ ks_Annotations ksvc, Status = None\<rparr>,
          kservice = Some ksvc, kdeploy = None\<rparr>)"

definition service_key :: "kService \<Rightarrow> string" where
  "service_key ksvc = index (ks_Labels ksvc) ''name'' @ index (ks_Labels ksvc) ''version''"

fun collect_services :: "kService list \<Rightarrow> (string \<rightharpoonup> service) \<Rightarrow> (string \<rightharpoonup> service) outcome" where
  "collect_services [] svcMap = Returns svcMap"
| "collect_services (ksvc # items) svcMap =
     (case ks_Ports ksvc of
        [] \<Rightarrow> Panics IndexOutOfRange
      | port # _ \<Rightarrow>
          collect_services items (svcMap(service_key ksvc \<mapsto> new_service ksvc port)))"

text \<open>The body of the loop over the pods ("get the real status").\<close>

definition pod_body :: "lib \<Rightarrow> string \<Rightarrow> string \<Rightarrow> kPod \<Rightarrow> service \<Rightarrow> service" where
  "pod_body L name version item svc =
     (if index (kp_Labels item) ''name'' \<noteq> name then svc
      else if index (kp_Labels item) ''version'' \<noteq> version then svc
      else
        let status = transformStatus L (kp_Phase item) in
        (case kp_Containers item of
           [] \<Rightarrow> svc
         | state # _ \<Rightarrow>
             let svc1 = (case cs_Running state of
                           None \<Rightarrow> svc
                         | Some r \<Rightarrow> set_Metadata ''started'' (Started r) svc);
                 status1 = (case cs_Waiting state of None \<Rightarrow> status | Some v \<Rightarrow> Starting)
             in service_Status status1 svc1))"

text \<open>
  The body of the loop over the deployments ("collect additional info from kubernetes
  deployment").
\<close>

definition deployment_key :: "kDeployment \<Rightarrow> string" where
  "deployment_key kdep = index (kd_Labels kdep) ''name'' @ index (kd_Labels kdep) ''version''"

definition deployment_body ::
  "lib \<Rightarrow> kPod list \<Rightarrow> kDeployment \<Rightarrow> (string \<rightharpoonup> service) \<Rightarrow> (string \<rightharpoonup> service)" where
  "deployment_body L podList kdep svcMap =
     (let name = index (kd_Labels kdep) ''name'';
          version = index (kd_Labels kdep) ''version''
      in case svcMap (name @ version) of
           None \<Rightarrow> svcMap
         | Some svc \<Rightarrow>
             (case kd_Annotations kdep ''name'' of
                None \<Rightarrow> svcMap
              | Some _ \<Rightarrow>
                  let svc1 = svc\<lparr>Service := (Service svc)
                               \<lparr>Name := index (kd_Annotations kdep) ''name'',
                                Version := index (kd_Annotations kdep) ''version'',
                                Source := index (kd_Annotations kdep) ''source''\<rparr>\<rparr>;
                      annotations = kd_Annotations kdep |` (- {''name'', ''version'', ''source''});
                      svc2 = svc1\<lparr>Service := (Service svc1)
                               \<lparr>Metadata := Metadata (Service svc1) ++ annotations\<rparr>\<rparr>;
                      svc3 = (case kd_Conditions kdep of
                                c # _ \<Rightarrow>
                                  set_Metadata ''started'' (dc_LastUpdateTime c)
                                    (service_Status (transformStatus L (dc_Type c)) svc2)
                              | [] \<Rightarrow> service_Status Unknown svc2);
                      svc4 = fold (pod_body L name version) podList svc3;
                      svc5 = svc4\<lparr>kdeploy := Some (kdep\<lparr>kd_Annotations := annotations\<rparr>)\<rparr>
                  in svcMap(name @ version \<mapsto> svc5)))"

text \<open>
  \<open>getService\<close>: three reads, then the two loops. The result is the service map; the
  slice the source returns lists its values in the unspecified order of a Go map
  iteration.
\<close>

definition getService ::
  "'u env \<Rightarrow> 'u \<Rightarrow> (string \<rightharpoonup> string) \<Rightarrow> GetOption list \<Rightarrow>
     (error + (string \<rightharpoonup> service)) outcome" where
  "getService E u labels opts0 =
     (let opts = opts0 @ [GetLabels labels] in
      case c_Get_service E opts u of
        Inl err \<Rightarrow> Returns (Inl err)
      | Inr serviceList \<Rightarrow>
          (case c_Get_deployment E opts u of
             Inl err \<Rightarrow> Returns (Inl err)
           | Inr depList \<Rightarrow>
               (case c_Get_pod E opts u of
                  Inl err \<Rightarrow> Returns (Inl err)
                | Inr podList \<Rightarrow>
                    (case collect_services serviceList Map.empty of
                       Panics p \<Rightarrow> Panics p
                     | Blocks \<Rightarrow> Blocks
                     | Returns svcMap \<Rightarrow>
                         Returns (Inr (fold (deployment_body (library E) podList) depList svcMap))))))"

section \<open>Log stream\<close>

text \<open>
  \<^verbatim>\<open>close\<close> panics on a nil and on a closed channel. In \<open>Stop\<close> the receive from the stop
  channel is ready exactly when that channel is closed: it is unbuffered and nothing in
  the file sends on it. The deferred unlock runs on return and on panic.
\<close>

fun close :: "chan \<Rightarrow> panic + chan" where
  "close NilChan = Inl CloseOfNilChannel"
| "close OpenChan = Inr ClosedChan"
| "close ClosedChan = Inl CloseOfClosedChannel"

definition Stop :: "kubeStream \<Rightarrow> (error option) outcome \<times> kubeStream" where
  "Stop k =
     (if s_mu k then (Blocks, k)
      else if s_stop k = ClosedChan then (Returns None, k)
      else
        (case close (s_stop k) of
           Inl p \<Rightarrow> (Panics p, k)
         | Inr c \<Rightarrow>
             (case close (s_stream k) of
                Inl p \<Rightarrow> (Panics p, k\<lparr>s_stop := c\<rparr>)
              | Inr c' \<Rightarrow> (Returns None, k\<lparr>s_stop := c, s_stream := c'\<rparr>))))"

text \<open>Sequential calls of \<open>Stop\<close>: the outcomes in order, and the stream at the end; a
  panic ends the sequence.\<close>

fun Stops :: "nat \<Rightarrow> kubeStream \<Rightarrow> (error option) outcome list \<times> kubeStream" where
  "Stops 0 k = ([], k)"
| "Stops (Suc n) k =
     (case Stop k of
        (Returns e, k') \<Rightarrow> (case Stops n k' of (rs, k'') \<Rightarrow> (Returns e # rs, k''))
      | (r, k') \<Rightarrow> ([r], k'))"

text \<open>The stream \<open>Logs\<close> makes: both channels made, no error, the mutex free.\<close>

definition new_kubeStream :: kubeStream where
  "new_kubeStream = \<lparr>s_stream = OpenChan, s_mu = False, s_stop = OpenChan, s_err = None\<rparr>"

section \<open>Credentials\<close>

text \<open>\<^verbatim>\<open>base64.StdEncoding.EncodeToString\<close>: the standard alphabet, padded with \<open>=\<close>.\<close>

definition encodeStd :: string where
  "encodeStd = ''ABCDEFGHIJKLMNOPQRSTUVWXYZabcdefghijklmnopqrstuvwxyz0123456789+/''"

definition sextet :: "nat \<Rightarrow> char" where
  "sextet n = encodeStd ! (n mod 64)"

fun EncodeToString :: "string \<Rightarrow> string" where
  "EncodeToString [] = []"
| "EncodeToString [a] =
     (let v = of_char a * 65536 in
      [sextet (v div 262144), sextet (v div 4096), CHR ''='', CHR ''=''])"
| "EncodeToString [a, b] =
     (let v = of_char a * 65536 + of_char b * 256 in
      [sextet (v div 262144), sextet (v div 4096), sextet (v div 64), CHR ''=''])"
| "EncodeToString (a # b # c # src) =
     (let v = of_char a * 65536 + of_char b * 256 + of_char c in
      [sextet (v div 262144), sextet (v div 4096), sextet (v div 64), sextet v])
     @ EncodeToString src"

definition credentialsName :: "lib \<Rightarrow> runtime_Service \<Rightarrow> string" where
  "credentialsName L service =
     SerializeResourceName L (Name service @ ''-'' @ Version service @ ''-credentials'')"

definition createCredentials ::
  "'u env \<Rightarrow> runtime_Service \<Rightarrow> CreateOptions \<Rightarrow> 'u world \<Rightarrow> error option \<times> 'u world" where
  "createCredentials E service options w =
     (let data = (\<lambda>key. map_option EncodeToString (co_Secrets options key));
          secret = \<lparr>sec_Type = ''Opaque'', sec_Data = data,
                    sec_Name = credentialsName (library E) service,
                    sec_Namespace = co_Namespace options\<rparr>;
          name = credentialsName (library E) service;
          r = \<lparr>r_Kind = ''secret'', r_Name = name, r_Value = SecretValue secret\<rparr>
      in issue (Call_Create r (co_Namespace options)) (c_Create E r (co_Namespace options)) w)"

section \<open>Namespace manager and dispatcher\<close>

text \<open>
  The adapter: its lock (\<open>k_locked\<close> tells whether the embedded \<^verbatim>\<open>sync.RWMutex\<close> is held
  for writing), its options, the running flag and the namespace cache, by names, \<open>None\<close>
  being the nil slice.
\<close>

record kubernetes =
  k_locked :: bool
  k_options :: Options
  k_running :: bool
  k_namespaces :: "string list option"

text \<open>Modelled from the spec: the create option that sets the target namespace (section 6).\<close>

definition CreateNamespace :: "string \<Rightarrow> CreateOption" where
  "CreateNamespace ns = (\<lambda>opts. opts\<lparr>co_Namespace := ns\<rparr>)"

definition namespaceExists ::
  "'u env \<Rightarrow> kubernetes \<Rightarrow> 'u world \<Rightarrow> string \<Rightarrow> (bool \<times> error option) \<times> kubernetes" where
  "namespaceExists E k w name =
     (case k_namespaces k of
        None \<Rightarrow>
          (case c_List E (upstream w) of
             Inl e \<Rightarrow> ((False, Some e), k)
           | Inr items \<Rightarrow>
               ((name \<in> set (case items of None \<Rightarrow> [] | Some ns \<Rightarrow> ns), None),
                k\<lparr>k_namespaces := items\<rparr>))
      | Some ns \<Rightarrow> ((name \<in> set ns, None), k))"

definition getImage :: "kubernetes \<Rightarrow> runtime_Service \<Rightarrow> CreateOptions \<Rightarrow> string" where
  "getImage k s options =
     (if co_Image options \<noteq> [] then co_Image options
      else if o_Image (k_options k) \<noteq> [] then o_Image (k_options k)
      else [])"

text \<open>The deferred \<^verbatim>\<open>Unlock\<close>: it runs when the call returns or panics, not when it blocks.\<close>

definition unlock ::
  "'a outcome \<times> kubernetes \<times> 'w \<Rightarrow> 'a outcome \<times> kubernetes \<times> 'w" where
  "unlock r =
     (case r of
        (Blocks, k, w) \<Rightarrow> (Blocks, k, w)
      | (res, k, w) \<Rightarrow> (res, k\<lparr>k_locked := False\<rparr>, w))"

definition returns ::
  "kubernetes \<Rightarrow> error option \<times> 'w \<Rightarrow> (error option) outcome \<times> kubernetes \<times> 'w" where
  "returns k r = (case r of (e, w) \<Rightarrow> (Returns e, k, w))"

text \<open>
  The end of the Service branch of \<open>Create\<close>, once the namespace is there: the image, the
  credentials when secrets are given, and the start of the workload.
\<close>

definition start_service ::
  "'u env \<Rightarrow> kubernetes \<Rightarrow> runtime_Service \<Rightarrow> CreateOptions \<Rightarrow> 'u world \<Rightarrow>
     error option \<times> 'u world" where
  "start_service E k s options0 w =
     (let options = options0\<lparr>co_Image := getImage k s options0\<rparr> in
      case (if co_Secrets options \<noteq> Map.empty then createCredentials E s options w
            else (None, w)) of
        (Some e, w1) \<Rightarrow> (Some e, w1)
      | (None, w1) \<Rightarrow> issue (Call_Start s options) (p_Start E s options) w1)"

function Create ::
    "'u env \<Rightarrow> kubernetes \<Rightarrow> 'u world \<Rightarrow> runtime_Resource \<Rightarrow> CreateOption list \<Rightarrow>
       (error option) outcome \<times> kubernetes \<times> 'u world"
  and autoCreateNamespace ::
    "'u env \<Rightarrow> kubernetes \<Rightarrow> 'u world \<Rightarrow> string \<Rightarrow>
       (error option) outcome \<times> kubernetes \<times> 'u world"
where
  "Create E k0 w resource opts =
     (if k_locked k0 then (Blocks, k0, w)
      else
        let k = k0\<lparr>k_locked := True\<rparr>;
            options0 = fold (\<lambda>opt. opt) opts
              \<lparr>co_Type = o_Type (k_options k),
               co_Namespace = DefaultNamespace (library E),
               co_Image = [], co_Secrets = Map.empty\<rparr>
        in unlock
          (case resource_Type resource of
             TypeNamespace \<Rightarrow>
               (case resource of
                  NamespaceResource namespace \<Rightarrow>
                    returns k (issue (Call_createNamespace namespace)
                                 (p_createNamespace E namespace) w)
                | _ \<Rightarrow> (Returns (Some ErrInvalidResource), k, w))
           | TypeNetworkPolicy \<Rightarrow>
               (case resource of
                  NetworkPolicyResource networkPolicy \<Rightarrow>
                    returns k (issue (Call_createNetworkPolicy networkPolicy)
                                 (p_createNetworkPolicy E networkPolicy) w)
                | _ \<Rightarrow> (Returns (Some ErrInvalidResource), k, w))
           | TypeService \<Rightarrow>
               (case resource of
                  ServiceResource s0 \<Rightarrow>
                    let options = (if co_Type options0 = []
                                   then options0\<lparr>co_Type := o_Type (k_options k)\<rparr>
                                   else options0);
                        s = (if Source s0 = [] then s0\<lparr>Source := o_Source (k_options k)\<rparr>
                             else s0);
                        namespace = SerializeResourceName (library E) (co_Namespace options)
                    in
                      (case
                         (if namespace \<noteq> ''default'' then
                            (case namespaceExists E k w namespace of
                               ((exist, None), k1) \<Rightarrow>
                                 if \<not> exist then
                                   (case autoCreateNamespace E k1 w namespace of
                                      (Returns None, k2, w2) \<Rightarrow> Inr (k2, w2)
                                    | other \<Rightarrow> Inl other)
                                 else Inr (k1, w)
                             | ((exist, Some e), k1) \<Rightarrow> Inl (Returns (Some e), k1, w))
                          else Inr (k, w)) of
                         Inl early \<Rightarrow> early
                       | Inr (k3, w3) \<Rightarrow> returns k3 (start_service E k3 s options w3))
                | _ \<Rightarrow> (Returns (Some ErrInvalidResource), k, w))
           | TypeOther t \<Rightarrow> (Returns (Some ErrInvalidResource), k, w)))"
| "autoCreateNamespace E k w namespace =
     (let r = \<lparr>r_Kind = ''namespace'', r_Name = [], r_Value = NamespaceValue namespace\<rparr> in
      case issue (Call_Create r namespace) (c_Create E r namespace) w of
        (err0, w1) \<Rightarrow>
          let e1 = (case err0 of
                      None \<Rightarrow> None
                    | Some e \<Rightarrow>
                        if Contains (Error_text e) ''already exists'' then None else Some e)
          in case (e1, k_namespaces k) of
               (None, Some cache) \<Rightarrow>
                 let k1 = k\<lparr>k_namespaces := Some (cache @ [namespace])\<rparr> in
                 (case NewNetworkPolicy (library E) ''ingress'' namespace [''owner'' \<mapsto> ''micro''] of
                    Inl e \<Rightarrow> (Returns (Some e), k1, w1)
                  | Inr networkPolicy \<Rightarrow>
                      Create E k1 w1 (NetworkPolicyResource networkPolicy)
                        [CreateNamespace namespace])
             | _ \<Rightarrow> (Returns e1, k, w1))"
  by pat_completeness auto
termination
  by (relation "measure (\<lambda>x. case x of
        Inl (E, k, w, r, opts) \<Rightarrow> (if k_locked k then 0 else 2)
      | Inr (E, k, w, n) \<Rightarrow> (if k_locked k then 1 else 3))")
    (auto simp: namespaceExists_def split: option.splits sum.splits if_splits)

text \<open>
  The loop of \<open>Update\<close> over the services \<open>getService\<close> returned. The nil check on the
  deployment's metadata and annotations reads through the back-reference first; the
  views always carry both, so only the dereference of a nil back-reference can fail.
\<close>

fun update_services ::
  "'u env \<Rightarrow> runtime_Service \<Rightarrow> string \<Rightarrow> service list \<Rightarrow> 'u world \<Rightarrow>
     (error option) outcome \<times> 'u world" where
  "update_services E s ns [] w = (Returns None, w)"
| "update_services E s ns (svc # services) w =
     (case kdeploy svc of
        None \<Rightarrow> (Panics NilPointerDereference, w)
      | Some kd \<Rightarrow>
          let kd1 = kd\<lparr>kd_Annotations := kd_Annotations kd ++ Metadata s\<rparr>;
              kd2 = kd1\<lparr>kd_TemplateAnnotations :=
                      (kd_TemplateAnnotations kd1)
                        (''updated'' \<mapsto> Sprintf_d (time_Now_Unix E (upstream w)))\<rparr>;
              svc1 = svc\<lparr>kdeploy := Some kd2\<rparr>
          in case issue (Call_Update svc1 ns) (p_Update E svc1 ns) w of
               (Some e, w1) \<Rightarrow> (Returns (Some e), w1)
             | (None, w1) \<Rightarrow> update_services E s ns services w1)"

text \<open>
  \<open>Update\<close> takes no lock. \<open>order\<close> gives the keys of the service map in the order in
  which the Go map iteration of \<open>getService\<close> lists its values.
\<close>

definition Update ::
  "'u env \<Rightarrow> 'u world \<Rightarrow> runtime_Resource \<Rightarrow> UpdateOption list \<Rightarrow>
     ((string \<rightharpoonup> service) \<Rightarrow> string list) \<Rightarrow> (error option) outcome \<times> 'u world" where
  "Update E w resource opts order =
     (let options = fold (\<lambda>opt. opt) opts \<lparr>uo_Namespace = DefaultNamespace (library E)\<rparr> in
      case resource_Type resource of
        TypeNamespace \<Rightarrow> (Returns None, w)
      | TypeNetworkPolicy \<Rightarrow>
          (case resource of
             NetworkPolicyResource networkPolicy \<Rightarrow>
               (case issue (Call_updateNetworkPolicy networkPolicy)
                       (p_updateNetworkPolicy E networkPolicy) w of
                  (e, w1) \<Rightarrow> (Returns e, w1))
           | _ \<Rightarrow> (Returns (Some ErrInvalidResource), w))
      | TypeService \<Rightarrow>
          (case resource of
             ServiceResource s \<Rightarrow>
               let labels0 = (if Name s \<noteq> [] then [''name'' \<mapsto> Format (library E) (Name s)]
                              else Map.empty);
                   labels = (if Version s \<noteq> []
                             then labels0(''version'' \<mapsto> Format (library E) (Version s))
                             else labels0)
               in (case getService E (upstream w) labels [GetNamespace (uo_Namespace options)] of
                     Returns (Inl e) \<Rightarrow> (Returns (Some e), w)
                   | Returns (Inr svcMap) \<Rightarrow>
                       update_services E s (uo_Namespace options)
                         (List.map_filter svcMap (order svcMap)) w
                   | Panics p \<Rightarrow> (Panics p, w)
                   | Blocks \<Rightarrow> (Blocks, w))
           | _ \<Rightarrow> (Returns (Some ErrInvalidResource), w))
      | TypeOther t \<Rightarrow> (Returns (Some ErrInvalidResource), w))"

definition Delete ::
  "'u env \<Rightarrow> kubernetes \<Rightarrow> 'u world \<Rightarrow> runtime_Resource \<Rightarrow> DeleteOption list \<Rightarrow>
     (error option) outcome \<times> kubernetes \<times> 'u world" where
  "Delete E k0 w resource opts =
     (if k_locked k0 then (Blocks, k0, w)
      else
        let k = k0\<lparr>k_locked := True\<rparr>;
            options = fold (\<lambda>opt. opt) opts \<lparr>do_Namespace = DefaultNamespace (library E)\<rparr>
        in unlock
          (case resource_Type resource of
             TypeNamespace \<Rightarrow>
               (case resource of
                  NamespaceResource namespace \<Rightarrow>
                    returns k (issue (Call_deleteNamespace namespace)
                                 (p_deleteNamespace E namespace) w)
                | _ \<Rightarrow> (Returns (Some ErrInvalidResource), k, w))
           | TypeNetworkPolicy \<Rightarrow>
               (case resource of
                  NetworkPolicyResource networkPolicy \<Rightarrow>
                    returns k (issue (Call_deleteNetworkPolicy networkPolicy)
                                 (p_deleteNetworkPolicy E networkPolicy) w)
                | _ \<Rightarrow> (Returns (Some ErrInvalidResource), k, w))
           | TypeService \<Rightarrow>
               (case resource of
                  ServiceResource s \<Rightarrow>
                    let copts = \<lparr>co_Type = o_Type (k_options k),
                                 co_Namespace = do_Namespace options,
                                 co_Image = [], co_Secrets = Map.empty\<rparr>;
                        ns = do_Namespace options;
                        r = \<lparr>r_Kind = ''secret'', r_Name = credentialsName (library E) s,
                             r_Value = NoValue\<rparr>
                    in (case issue (Call_Delete r ns) (c_Delete E r ns) w of
                          (ignored, w1) \<Rightarrow>
                            (case issue (Call_Stop s copts) (p_Stop E s copts) w1 of
                               (Some e, w2) \<Rightarrow>
                                 (Returns (Some (if e = api_ErrNotFound then ErrNotFound else e)),
                                  k, w2)
                             | (None, w2) \<Rightarrow> (Returns None, k, w2)))
                | _ \<Rightarrow> (Returns (Some ErrInvalidResource), k, w))
           | TypeOther t \<Rightarrow> (Returns (Some ErrInvalidResource), k, w)))"

text \<open>
  \<open>Logs\<close> returns a stream and an error. In the buffered mode the records read are sent
  on the new stream by a goroutine, which then stops it; the records are returned beside
  the stream.
\<close>

definition Logs ::
  "'u env \<Rightarrow> 'u world \<Rightarrow> runtime_Resource \<Rightarrow> LogsOption list \<Rightarrow>
     (kubeStream \<times> LogRecord list) option \<times> error option" where
  "Logs E w resource options =
     (case resource_Type resource of
        TypeNamespace \<Rightarrow> (None, None)
      | TypeNetworkPolicy \<Rightarrow> (None, None)
      | TypeService \<Rightarrow>
          (case resource of
             ServiceResource s \<Rightarrow>
               if \<not> p_log_options_Stream E options then
                 (case p_log_Read E (Name s) options (upstream w) of
                    Inl e \<Rightarrow> (None, Some e)
                  | Inr records \<Rightarrow> (Some (new_kubeStream, records), None))
               else
                 (case p_log_Stream E (Name s) options (upstream w) of
                    Inl e \<Rightarrow> (None, Some e)
                  | Inr kstream \<Rightarrow> (Some (kstream, []), None))
           | _ \<Rightarrow> (None, Some ErrInvalidResource))
      | TypeOther t \<Rightarrow> (None, Some ErrInvalidResource))"

section \<open>Notions used in the statements\<close>

text \<open>
  A pod takes part in the refinement of a deployment's service when its name and version
  labels equal the deployment's and it reports a container status. Its status is its
  phase, transformed, or Starting when its first container is waiting.
\<close>

definition has_containers :: "kPod \<Rightarrow> bool" where
  "has_containers item = (kp_Containers item \<noteq> [])"

definition pod_matches :: "string \<Rightarrow> string \<Rightarrow> kPod \<Rightarrow> bool" where
  "pod_matches name version item =
     (index (kp_Labels item) ''name'' = name \<and> index (kp_Labels item) ''version'' = version
      \<and> has_containers item)"


definition pod_status :: "lib \<Rightarrow> kPod \<Rightarrow> ServiceStatus" where
  "pod_status L item =
     (case cs_Waiting (hd (kp_Containers item)) of
        None \<Rightarrow> transformStatus L (kp_Phase item)
      | Some v \<Rightarrow> Starting)"

definition matching_pods :: "kDeployment \<Rightarrow> kPod list \<Rightarrow> kPod list" where
  "matching_pods kdep podList =
     filter (pod_matches (index (kd_Labels kdep) ''name'') (index (kd_Labels kdep) ''version''))
       podList"

text \<open>
  A deployment is adapter-managed when it carries a name annotation; its own status is
  its first condition, transformed, or Unknown.
\<close>

definition managed :: "kDeployment \<Rightarrow> bool" where
  "managed kdep = (kd_Annotations kdep ''name'' \<noteq> None)"

definition managed_for :: "string \<Rightarrow> kDeployment list \<Rightarrow> kDeployment list" where
  "managed_for key depList = filter (\<lambda>kdep. deployment_key kdep = key \<and> managed kdep) depList"

definition deployment_status :: "lib \<Rightarrow> kDeployment \<Rightarrow> ServiceStatus" where
  "deployment_status L kdep =
     (case kd_Conditions kdep of [] \<Rightarrow> Unknown | c # _ \<Rightarrow> transformStatus L (dc_Type c))"

text \<open>What the deployment loop does to the service it finds under the deployment's key.\<close>

definition deployment_update :: "lib \<Rightarrow> kPod list \<Rightarrow> kDeployment \<Rightarrow> service \<Rightarrow> service" where
  "deployment_update L podList kdep svc =
     (let name = index (kd_Labels kdep) ''name'';
          version = index (kd_Labels kdep) ''version'';
          svc1 = svc\<lparr>Service := (Service svc)
                   \<lparr>Name := index (kd_Annotations kdep) ''name'',
                    Version := index (kd_Annotations kdep) ''version'',
                    Source := index (kd_Annotations kdep) ''source''\<rparr>\<rparr>;
          annotations = kd_Annotations kdep |` (- {''name'', ''version'', ''source''});
          svc2 = svc1\<lparr>Service := (Service svc1)
                   \<lparr>Metadata := Metadata (Service svc1) ++ annotations\<rparr>\<rparr>;
          svc3 = (case kd_Conditions kdep of
                    c # _ \<Rightarrow>
                      set_Metadata ''started'' (dc_LastUpdateTime c)
                        (service_Status (transformStatus L (dc_Type c)) svc2)
                  | [] \<Rightarrow> service_Status Unknown svc2);
          svc4 = fold (pod_body L name version) podList svc3
      in svc4\<lparr>kdeploy := Some (kdep\<lparr>kd_Annotations := annotations\<rparr>)\<rparr>)"

text \<open>The status under a key of a result of \<open>getService\<close>, and the result as the set of
  its (name, version, status) triples.\<close>

definition status_at ::
  "(error + (string \<rightharpoonup> service)) outcome \<Rightarrow> string \<Rightarrow> ServiceStatus option" where
  "status_at r key =
     (case r of
        Returns (Inr svcMap) \<Rightarrow>
          (case svcMap key of None \<Rightarrow> None | Some svc \<Rightarrow> Status (Service svc))
      | _ \<Rightarrow> None)"

definition triple :: "service \<Rightarrow> string \<times> string \<times> ServiceStatus option" where
  "triple svc = (Name (Service svc), Version (Service svc), Status (Service svc))"

definition triple_at ::
  "(error + (string \<rightharpoonup> service)) outcome \<Rightarrow> string \<Rightarrow>
     (string \<times> string \<times> ServiceStatus option) option" where
  "triple_at r key =
     (case r of Returns (Inr svcMap) \<Rightarrow> map_option triple (svcMap key) | _ \<Rightarrow> None)"


section \<open>A cluster to run the adapter against\<close>

text \<open>
  A small cluster and a client over it, for the concrete runs below: reads return what
  the cluster holds, creating a namespace that exists is refused with an "already exists"
  error, every other call succeeds.
\<close>

record cluster =
  cl_namespaces :: "string list option"
  cl_services :: "kService list"
  cl_deployments :: "kDeployment list"
  cl_pods :: "kPod list"

definition dash :: "char \<Rightarrow> char" where
  "dash c = (if c = CHR ''_'' \<or> c = CHR ''/'' then CHR ''-'' else c)"

definition example_lib :: lib where
  "example_lib =
     \<lparr>unicode_ToLower = (\<lambda>s. s), SerializeResourceName = map dash,
      Format = (\<lambda>v. take 253 (map dash (map toLowerByte v))),
      DefaultNamespace = ''default'',
      NewNetworkPolicy = (\<lambda>name namespace allowedLabels.
         if name = [] \<or> namespace = [] then Inl ErrInvalidResource
         else Inr \<lparr>np_Name = name, np_Namespace = namespace, np_AllowedLabels = allowedLabels\<rparr>)\<rparr>"

definition example_Create :: "Resource \<Rightarrow> string \<Rightarrow> cluster \<Rightarrow> error option \<times> cluster" where
  "example_Create r ns u =
     (case r_Value r of
        NamespaceValue n \<Rightarrow>
          (let known = (case cl_namespaces u of None \<Rightarrow> [] | Some l \<Rightarrow> l) in
           if n \<in> set known then (Some (errors_New (n @ '' already exists'')), u)
           else (None, u\<lparr>cl_namespaces := Some (known @ [n])\<rparr>))
      | _ \<Rightarrow> (None, u))"

definition example_env :: "cluster env" where
  "example_env =
     \<lparr>library = example_lib,
      c_List = (\<lambda>u. Inr (cl_namespaces u)),
      c_Get_service = (\<lambda>opts u. Inr (cl_services u)),
      c_Get_deployment = (\<lambda>opts u. Inr (cl_deployments u)),
      c_Get_pod = (\<lambda>opts u. Inr (cl_pods u)),
      c_Create = example_Create,
      c_Delete = (\<lambda>r ns u. (None, u)),
      p_createNamespace = (\<lambda>n u. (None, u)),
      p_createNetworkPolicy = (\<lambda>n u. (None, u)),
      p_updateNetworkPolicy = (\<lambda>n u. (None, u)),
      p_deleteNamespace = (\<lambda>n u. (None, u)),
      p_deleteNetworkPolicy = (\<lambda>n u. (None, u)),
      p_Start = (\<lambda>s opts u. (None, u)),
      p_Stop = (\<lambda>s opts u. (None, u)),
      p_Update = (\<lambda>s ns u. (None, u)),
      p_log_options_Stream = (\<lambda>opts. False),
      p_log_Read = (\<lambda>name opts u. Inr []),
      p_log_Stream = (\<lambda>name opts u.
         Inr \<lparr>s_stream = OpenChan, s_mu = False, s_stop = OpenChan, s_err = None\<rparr>),
      time_Now_Unix = (\<lambda>u. 1600000000)\<rparr>"

definition labels_of :: "string \<Rightarrow> string \<Rightarrow> string \<rightharpoonup> string" where
  "labels_of name version = [''name'' \<mapsto> name, ''version'' \<mapsto> version, ''micro'' \<mapsto> ''service'']"

definition api_service :: kService where
  "api_service = \<lparr>ks_Labels = labels_of ''api'' ''v1'', ks_Annotations = Map.empty,
                    ks_ClusterIP = ''10.0.0.1'', ks_Ports = [8080]\<rparr>"

definition api_deployment :: kDeployment where
  "api_deployment =
     \<lparr>kd_Labels = labels_of ''api'' ''v1'',
      kd_Annotations = [''name'' \<mapsto> ''api'', ''version'' \<mapsto> ''v1'', ''source'' \<mapsto> ''src''],
      kd_Conditions = [\<lparr>dc_LastUpdateTime = ''t0'', dc_Type = ''Running''\<rparr>],
      kd_TemplateAnnotations = Map.empty\<rparr>"

definition pod_waiting :: kPod where
  "pod_waiting =
     \<lparr>kp_Labels = labels_of ''api'' ''v1'', kp_Phase = ''Pending'',
      kp_Containers = [\<lparr>cs_Running = None, cs_Waiting = Some \<lparr>Started = []\<rparr>\<rparr>]\<rparr>"

definition pod_running :: kPod where
  "pod_running =
     \<lparr>kp_Labels = labels_of ''api'' ''v1'', kp_Phase = ''Running'',
      kp_Containers = [\<lparr>cs_Running = Some \<lparr>Started = ''t1''\<rparr>, cs_Waiting = None\<rparr>]\<rparr>"


definition api_cluster :: "kDeployment list \<Rightarrow> kPod list \<Rightarrow> cluster" where
  "api_cluster deps pods =
     \<lparr>cl_namespaces = Some [''default''], cl_services = [api_service],
      cl_deployments = deps, cl_pods = pods\<rparr>"

section \<open>Theorems\<close>

lemma isASCII_literals:
  "isASCII ''ImagePullBackOff''" "isASCII ''Available''" "isASCII ''bogus''"
  by (simp_all add: isASCII_def)

lemma toLowerByte_literals:
  "map toLowerByte ''ImagePullBackOff'' = ''imagepullbackoff''"
  "map toLowerByte ''Available'' = ''available''"
  "map toLowerByte ''bogus'' = ''bogus''"
  by code_simp+

lemma ToLower_examples:
  "ToLower L ''ImagePullBackOff'' = ''imagepullbackoff''"
  "ToLower L ''Available'' = ''available''"
  "ToLower L ''bogus'' = ''bogus''"
  unfolding ToLower_def by (simp_all only: isASCII_literals toLowerByte_literals if_True)

text \<open>
  C3. \<open>transformStatus\<close> is a total function of its argument whose value is decided by
  the lower-cased argument alone: pending, containercreating and waiting give Starting;
  running and available give Running; succeeded and terminated give Stopped;
  imagepullbackoff, crashloopbackoff, error and failed give Error; every other string
  gives Unknown. The three examples of the specification are instances.
\<close>

theorem transformStatus_table:
  "transformStatus L s =
     (if ToLower L s \<in> {''pending'', ''containercreating'', ''waiting''} then Starting
      else if ToLower L s \<in> {''running'', ''available''} then Running
      else if ToLower L s \<in> {''succeeded'', ''terminated''} then Stopped
      else if ToLower L s \<in> {''imagepullbackoff'', ''crashloopbackoff'', ''error'', ''failed''}
        then Error
      else Unknown)
   \<and> transformStatus L ''ImagePullBackOff'' = Error
   \<and> transformStatus L ''Available'' = Running
   \<and> transformStatus L ''bogus'' = Unknown"
proof (intro conjI)
  show "transformStatus L s =
     (if ToLower L s \<in> {''pending'', ''containercreating'', ''waiting''} then Starting
      else if ToLower L s \<in> {''running'', ''available''} then Running
      else if ToLower L s \<in> {''succeeded'', ''terminated''} then Stopped
      else if ToLower L s \<in> {''imagepullbackoff'', ''crashloopbackoff'', ''error'', ''failed''}
        then Error
      else Unknown)"
    unfolding transformStatus_def Let_def by simp
  show "transformStatus L ''ImagePullBackOff'' = Error"
    unfolding transformStatus_def Let_def by (simp add: ToLower_examples)
  show "transformStatus L ''Available'' = Running"
    unfolding transformStatus_def Let_def by (simp add: ToLower_examples)
  show "transformStatus L ''bogus'' = Unknown"
    unfolding transformStatus_def Let_def by (simp add: ToLower_examples)
qed


lemma collect_services_fold:
  "collect_services xs m =
     (if \<exists>x\<in>set xs. ks_Ports x = [] then Panics IndexOutOfRange
      else Returns (fold (\<lambda>x m. m(service_key x \<mapsto> new_service x (hd (ks_Ports x)))) xs m))"
  by (induction xs arbitrary: m) (auto split: list.splits)

lemma pod_body_cases:
  "pod_body L n v item svc =
     (if pod_matches n v item
      then service_Status (pod_status L item)
             (case cs_Running (hd (kp_Containers item)) of
                None \<Rightarrow> svc | Some r \<Rightarrow> set_Metadata ''started'' (Started r) svc)
      else svc)"
  by (auto simp: pod_body_def pod_matches_def has_containers_def pod_status_def Let_def
      split: list.splits option.splits)

lemma pod_body_fields:
  "kdeploy (pod_body L n v item svc) = kdeploy svc"
  "kservice (pod_body L n v item svc) = kservice svc"
  "Name (Service (pod_body L n v item svc)) = Name (Service svc)"
  "Version (Service (pod_body L n v item svc)) = Version (Service svc)"
  by (simp_all add: pod_body_cases service_Status_def set_Metadata_def split: option.splits)

lemma pod_loop_fields:
  "kdeploy (fold (pod_body L n v) ps svc) = kdeploy svc"
  "kservice (fold (pod_body L n v) ps svc) = kservice svc"
  "Name (Service (fold (pod_body L n v) ps svc)) = Name (Service svc)"
  "Version (Service (fold (pod_body L n v) ps svc)) = Version (Service svc)"
  by (induction ps arbitrary: svc) (simp_all add: pod_body_fields)

lemma pod_loop_status:
  "Status (Service (fold (pod_body L n v) ps svc)) =
     (if filter (pod_matches n v) ps = [] then Status (Service svc)
      else Some (pod_status L (last (filter (pod_matches n v) ps))))"
proof (induction ps rule: rev_induct)
  case Nil
  then show ?case by simp
next
  case (snoc p ps)
  show ?case
  proof (cases "pod_matches n v p")
    case True
    then show ?thesis
      by (simp add: pod_body_cases service_Status_def)
  next
    case False
    then show ?thesis using snoc by (simp add: pod_body_cases)
  qed
qed

lemma deployment_body_update:
  "deployment_body L P d m =
     (case m (deployment_key d) of
        None \<Rightarrow> m
      | Some svc \<Rightarrow> if managed d then m(deployment_key d \<mapsto> deployment_update L P d svc) else m)"
  by (auto simp: deployment_body_def deployment_update_def deployment_key_def managed_def Let_def
      split: option.splits)

lemma deployment_update_fields:
  "kdeploy (deployment_update L P d svc) \<noteq> None"
  "Name (Service (deployment_update L P d svc)) = index (kd_Annotations d) ''name''"
  "Version (Service (deployment_update L P d svc)) = index (kd_Annotations d) ''version''"
  by (simp_all add: deployment_update_def Let_def pod_loop_fields service_Status_def
      set_Metadata_def split: list.splits)

lemma deployment_update_status:
  "Status (Service (deployment_update L P d svc)) =
     Some (if matching_pods d P = [] then deployment_status L d
           else pod_status L (last (matching_pods d P)))"
  by (simp add: deployment_update_def Let_def pod_loop_status matching_pods_def
      deployment_status_def service_Status_def set_Metadata_def split: list.splits)

lemma deployment_body_other:
  "deployment_key d \<noteq> k \<Longrightarrow> deployment_body L P d m k = m k"
  by (simp add: deployment_body_update split: option.splits)

lemma deployment_body_dom: "dom (deployment_body L P d m) = dom m"
  by (auto simp: deployment_body_update split: option.splits if_splits)

lemma deployment_loop_dom: "dom (fold (deployment_body L P) ds m) = dom m"
  by (induction ds arbitrary: m) (simp_all add: deployment_body_dom)


lemma deployment_loop_key:
  assumes "m k = Some svc"
  shows "\<exists>svc'. fold (deployment_body L P) D m k = Some svc' \<and>
           (if managed_for k D = [] then svc' = svc
            else \<exists>svc0. svc' = deployment_update L P (last (managed_for k D)) svc0)"
proof (induction D rule: rev_induct)
  case Nil
  then show ?case using assms by (simp add: managed_for_def)
next
  case (snoc d D)
  then obtain svc' where s: "fold (deployment_body L P) D m k = Some svc'"
    and c: "if managed_for k D = [] then svc' = svc
            else \<exists>svc0. svc' = deployment_update L P (last (managed_for k D)) svc0"
    by blast
  show ?case
  proof (cases "deployment_key d = k \<and> managed d")
    case True
    then have "fold (deployment_body L P) (D @ [d]) m k = Some (deployment_update L P d svc')"
      using s by (simp add: deployment_body_update)
    moreover have "managed_for k (D @ [d]) \<noteq> []" "last (managed_for k (D @ [d])) = d"
      using True by (simp_all add: managed_for_def)
    ultimately show ?thesis by auto
  next
    case False
    then have "fold (deployment_body L P) (D @ [d]) m k = Some svc'"
      using s by (auto simp: deployment_body_update split: option.splits)
    moreover have "managed_for k (D @ [d]) = managed_for k D"
      using False by (auto simp: managed_for_def)
    ultimately show ?thesis using c by simp
  qed
qed

lemma services_loop_dom:
  "dom (fold (\<lambda>x m. m(service_key x \<mapsto> new_service x (hd (ks_Ports x)))) S m) =
     dom m \<union> service_key ` set S"
  by (induction S arbitrary: m) auto

lemma services_loop_kdeploy:
  assumes "\<And>k svc. m k = Some svc \<Longrightarrow> kdeploy svc = None \<and> Status (Service svc) = None"
    and "fold (\<lambda>x m. m(service_key x \<mapsto> new_service x (hd (ks_Ports x)))) S m k = Some svc"
  shows "kdeploy svc = None \<and> Status (Service svc) = None"
  using assms
proof (induction S arbitrary: m)
  case Nil
  then show ?case by simp
next
  case (Cons x S)
  show ?case
  proof (rule Cons.IH [of "m(service_key x \<mapsto> new_service x (hd (ks_Ports x)))"])
    fix k' svc'
    assume "(m(service_key x \<mapsto> new_service x (hd (ks_Ports x)))) k' = Some svc'"
    then show "kdeploy svc' = None \<and> Status (Service svc') = None"
      using Cons.prems(1) by (auto simp: new_service_def Let_def split: if_splits)
  next
    show "fold (\<lambda>x m. m(service_key x \<mapsto> new_service x (hd (ks_Ports x)))) S
            (m(service_key x \<mapsto> new_service x (hd (ks_Ports x)))) k = Some svc"
      using Cons.prems(2) by (simp only: fold_simps comp_apply)
  qed
qed





lemma getService_unfold:
  assumes "c_Get_service E (opts @ [GetLabels labels]) u = Inr S"
    and "c_Get_deployment E (opts @ [GetLabels labels]) u = Inr D"
    and "c_Get_pod E (opts @ [GetLabels labels]) u = Inr P"
  shows "getService E u labels opts =
     (if \<exists>s\<in>set S. ks_Ports s = [] then Panics IndexOutOfRange
      else Returns (Inr (fold (deployment_body (library E) P) D
             (fold (\<lambda>x m. m(service_key x \<mapsto> new_service x (hd (ks_Ports x)))) S Map.empty))))"
  using assms by (simp add: getService_def collect_services_fold)

lemma getService_managed_triple:
  assumes "c_Get_service E (opts @ [GetLabels labels]) u = Inr S"
    and "c_Get_deployment E (opts @ [GetLabels labels]) u = Inr D"
    and "c_Get_pod E (opts @ [GetLabels labels]) u = Inr P"
    and "\<forall>s\<in>set S. ks_Ports s \<noteq> []"
    and "key \<in> service_key ` set S"
    and "managed_for key D \<noteq> []"
    and "d = last (managed_for key D)"
  shows "triple_at (getService E u labels opts) key =
           Some (index (kd_Annotations d) ''name'', index (kd_Annotations d) ''version'',
                 Some (if matching_pods d P = [] then deployment_status (library E) d
                       else pod_status (library E) (last (matching_pods d P))))"
proof -
  let ?m0 = "fold (\<lambda>x m. m(service_key x \<mapsto> new_service x (hd (ks_Ports x)))) S Map.empty"
  have "key \<in> dom ?m0" using assms(5) by (simp add: services_loop_dom)
  then obtain svc where "?m0 key = Some svc" by blast
  from deployment_loop_key [of ?m0 key svc "library E" P D, OF this] assms(6,7)
  obtain svc' svc0 where r: "fold (deployment_body (library E) P) D ?m0 key = Some svc'"
    and u: "svc' = deployment_update (library E) P d svc0"
    by auto
  have g: "getService E u labels opts = Returns (Inr (fold (deployment_body (library E) P) D ?m0))"
    using getService_unfold [OF assms(1-3)] assms(4) by simp
  show ?thesis
    by (simp add: g triple_at_def triple_def r u deployment_update_status deployment_update_fields)
qed

lemma getService_unmanaged_status:
  assumes "c_Get_service E (opts @ [GetLabels labels]) u = Inr S"
    and "c_Get_deployment E (opts @ [GetLabels labels]) u = Inr D"
    and "c_Get_pod E (opts @ [GetLabels labels]) u = Inr P"
    and "\<forall>s\<in>set S. ks_Ports s \<noteq> []"
    and "managed_for key D = []"
  shows "status_at (getService E u labels opts) key = None"
proof -
  let ?m0 = "fold (\<lambda>x m. m(service_key x \<mapsto> new_service x (hd (ks_Ports x)))) S Map.empty"
  have g: "getService E u labels opts = Returns (Inr (fold (deployment_body (library E) P) D ?m0))"
    using getService_unfold [OF assms(1-3)] assms(4) by simp
  show ?thesis
  proof (cases "?m0 key")
    case None
    then have "key \<notin> dom (fold (deployment_body (library E) P) D ?m0)"
      by (simp add: deployment_loop_dom domIff)
    then show ?thesis by (simp add: g status_at_def domIff)
  next
    case (Some svc)
    have "kdeploy svc = None \<and> Status (Service svc) = None"
      by (rule services_loop_kdeploy [OF _ Some]) simp
    moreover from deployment_loop_key [of ?m0 key svc "library E" P D, OF Some] assms(5)
    have "fold (deployment_body (library E) P) D ?m0 key = Some svc" by simp
    ultimately show ?thesis by (simp add: g status_at_def)
  qed
qed

lemma status_at_triple_at:
  "triple_at r key = Some (n, v, st) \<Longrightarrow> status_at r key = st"
  by (auto simp: triple_at_def status_at_def triple_def split: outcome.splits sum.splits option.splits)

text \<open>
  C1, as amended. When the services all declare a port, \<open>key\<close> is the key of a listed
  service, at least one adapter-managed deployment has that key, and at least one pod
  with a container status carries the name and version labels of the last such
  deployment, then the logical service under \<open>key\<close> ends with the status of the last such
  pod in list order: its phase, transformed, or Starting when its first container is
  waiting. The status of the deployment's conditions is superseded.
\<close>

theorem getService_last_pod_status:
  assumes "c_Get_service E (opts @ [GetLabels labels]) u = Inr S"
    and "c_Get_deployment E (opts @ [GetLabels labels]) u = Inr D"
    and "c_Get_pod E (opts @ [GetLabels labels]) u = Inr P"
    and "\<forall>s\<in>set S. ks_Ports s \<noteq> []"
    and "key \<in> service_key ` set S"
    and "managed_for key D \<noteq> []"
    and "matching_pods (last (managed_for key D)) P \<noteq> []"
  shows "status_at (getService E u labels opts) key =
           Some (pod_status (library E) (last (matching_pods (last (managed_for key D)) P)))
       \<and> (cs_Waiting (hd (kp_Containers (last (matching_pods (last (managed_for key D)) P)))) \<noteq> None
          \<longrightarrow> status_at (getService E u labels opts) key = Some Starting)"
proof -
  let ?m0 = "fold (\<lambda>x m. m(service_key x \<mapsto> new_service x (hd (ks_Ports x)))) S Map.empty"
  have "key \<in> dom ?m0" using assms(5) by (simp add: services_loop_dom)
  then obtain svc where "?m0 key = Some svc" by blast
  from deployment_loop_key [of ?m0 key svc "library E" P D, OF this] assms(6)
  obtain svc' svc0 where r: "fold (deployment_body (library E) P) D ?m0 key = Some svc'"
    and u: "svc' = deployment_update (library E) P (last (managed_for key D)) svc0"
    by auto
  have g: "getService E u labels opts = Returns (Inr (fold (deployment_body (library E) P) D ?m0))"
    using getService_unfold [OF assms(1-3)] assms(4) by simp
  have "status_at (getService E u labels opts) key =
           Some (pod_status (library E) (last (matching_pods (last (managed_for key D)) P)))"
    using assms(7) by (simp add: g status_at_def r u deployment_update_status)
  then show ?thesis by (auto simp: pod_status_def)
qed

text \<open>
  C10. \<open>getService\<close> reads the first port of every listed service without a guard: given
  the three lists, it panics with an index out of range exactly when some listed service
  declares no port, and returns its services otherwise; an empty condition list of a
  deployment or an empty container list of a pod never makes it panic.
\<close>

theorem getService_ports_index:
  assumes "c_Get_service E (opts @ [GetLabels labels]) u = Inr S"
    and "c_Get_deployment E (opts @ [GetLabels labels]) u = Inr D"
    and "c_Get_pod E (opts @ [GetLabels labels]) u = Inr P"
  shows "(getService E u labels opts = Panics IndexOutOfRange) = (\<exists>s\<in>set S. ks_Ports s = [])
       \<and> ((\<forall>s\<in>set S. ks_Ports s \<noteq> []) \<longrightarrow> (\<exists>svcMap. getService E u labels opts = Returns (Inr svcMap)))"
  using getService_unfold [OF assms] by auto




lemma example_gets:
  "c_Get_service example_env opts (api_cluster deps pods) = Inr [api_service]"
  "c_Get_deployment example_env opts (api_cluster deps pods) = Inr deps"
  "c_Get_pod example_env opts (api_cluster deps pods) = Inr pods"
  by (simp_all add: example_env_def api_cluster_def)

lemma api_service_key: "service_key api_service = ''apiv1''"
  by code_simp

lemma api_service_facts:
  "\<forall>s\<in>set [api_service]. ks_Ports s \<noteq> []"
  "service_key ` set [api_service] = {''apiv1''}"
  by (simp_all add: api_service_key) (simp add: api_service_def)


lemma example_statuses:
  "pod_status example_lib pod_waiting = Starting"
  "pod_status example_lib pod_running = Running"
  by code_simp+

lemma example_managed:
  "managed_for ''apiv1'' [api_deployment] = [api_deployment]"
  "managed_for ''apiv1'' [] = []"
  by (simp_all add: managed_for_def managed_def deployment_key_def api_deployment_def
      labels_of_def index_def)

lemma example_matching:
  "matching_pods api_deployment [pod_waiting, pod_running] = [pod_waiting, pod_running]"
  "matching_pods api_deployment [pod_running, pod_waiting] = [pod_running, pod_waiting]"
  "pod_matches ''api'' ''v1'' pod_waiting"
  by (simp_all add: matching_pods_def pod_matches_def has_containers_def api_deployment_def
      pod_running_def pod_waiting_def labels_of_def index_def)

lemma example_annotations:
  "index (kd_Annotations api_deployment) ''name'' = ''api''"
  "index (kd_Annotations api_deployment) ''version'' = ''v1''"
  by (simp_all add: api_deployment_def index_def)

lemma example_triple:
  assumes "matching_pods api_deployment pods \<noteq> []"
  shows "triple_at (getService example_env (api_cluster [api_deployment] pods) Map.empty []) ''apiv1''
           = Some (''api'', ''v1'', Some (pod_status example_lib (last (matching_pods api_deployment pods))))"
proof -
  have k: "''apiv1'' \<in> service_key ` set [api_service]" by (simp add: api_service_key)
  have d: "api_deployment = last (managed_for ''apiv1'' [api_deployment])"
    by (simp add: example_managed)
  have l: "library example_env = example_lib" by (simp add: example_env_def)
  show ?thesis
    using getService_managed_triple [where opts = "[]" and labels = Map.empty,
        OF example_gets api_service_facts(1) k _ d, of pods] assms
    by (simp add: example_managed example_annotations l)
qed


text \<open>
  C1 fails as stated. A deployment with condition Running and two pods with its labels,
  the first with a waiting first container, the second running: the final status is
  Running, not the Starting of the waiting pod. And with no adapter-managed deployment the
  status of a matching waiting pod is never read: the status field is never assigned.
\<close>

theorem getService_earlier_pod_superseded:
  "pod_matches ''api'' ''v1'' pod_waiting
   \<and> pod_status example_lib pod_waiting = Starting
   \<and> status_at (getService example_env (api_cluster [api_deployment] [pod_waiting, pod_running]) Map.empty []) ''apiv1''
       = Some Running
   \<and> status_at (getService example_env (api_cluster [] [pod_waiting]) Map.empty []) ''apiv1'' = None"
proof -
  have "triple_at (getService example_env (api_cluster [api_deployment] [pod_waiting, pod_running]) Map.empty []) ''apiv1''
           = Some (''api'', ''v1'', Some Running)"
    by (simp add: example_triple example_matching example_statuses)
  then have a: "status_at (getService example_env (api_cluster [api_deployment] [pod_waiting, pod_running]) Map.empty []) ''apiv1''
       = Some Running"
    by (rule status_at_triple_at)
  have b: "status_at (getService example_env (api_cluster [] [pod_waiting]) Map.empty []) ''apiv1'' = None"
    by (rule getService_unmanaged_status [where opts = "[]" and labels = Map.empty,
          OF example_gets api_service_facts(1) example_managed(2)])
  show ?thesis using a b by (simp add: example_matching example_statuses)
qed

text \<open>Witness for C1: deployment condition Running, the last pod waiting: Starting.\<close>

theorem getService_last_pod_status_witness:
  "status_at (getService example_env (api_cluster [api_deployment] [pod_running, pod_waiting]) Map.empty []) ''apiv1''
     = Some Starting"
proof -
  have m: "managed_for ''apiv1'' [api_deployment] = [api_deployment]"
    by (simp add: managed_for_def managed_def deployment_key_def api_deployment_def labels_of_def index_def)
  have p: "matching_pods api_deployment [pod_running, pod_waiting] = [pod_running, pod_waiting]"
    by (simp add: matching_pods_def pod_matches_def has_containers_def api_deployment_def
        pod_running_def pod_waiting_def labels_of_def index_def)
  have k: "''apiv1'' \<in> service_key ` set [api_service]"
    by (simp add: api_service_key)
  have w: "cs_Waiting (hd (kp_Containers (last (matching_pods (last (managed_for ''apiv1'' [api_deployment]))
             [pod_running, pod_waiting])))) \<noteq> None"
    by (simp add: m p) (simp add: pod_waiting_def)
  show ?thesis
    using getService_last_pod_status [where opts = "[]" and labels = Map.empty
        and D = "[api_deployment]" and P = "[pod_running, pod_waiting]",
        OF example_gets api_service_facts(1) k] w
    by (auto simp: m p)
qed

text \<open>Witness for C10: a service without ports panics; empty conditions and containers do not.\<close>

theorem getService_ports_index_witness:
  "getService example_env
     ((api_cluster [api_deployment] [pod_waiting])\<lparr>cl_services := [api_service\<lparr>ks_Ports := []\<rparr>]\<rparr>)
     Map.empty [] = Panics IndexOutOfRange
   \<and> getService example_env
     ((api_cluster [api_deployment\<lparr>kd_Conditions := []\<rparr>] [pod_waiting\<lparr>kp_Containers := []\<rparr>]))
     Map.empty [] \<noteq> Panics IndexOutOfRange"
proof -
  let ?u = "(api_cluster [api_deployment] [pod_waiting])\<lparr>cl_services := [api_service\<lparr>ks_Ports := []\<rparr>]\<rparr>"
  have g: "c_Get_service example_env ([] @ [GetLabels Map.empty]) ?u = Inr [api_service\<lparr>ks_Ports := []\<rparr>]"
    "c_Get_deployment example_env ([] @ [GetLabels Map.empty]) ?u = Inr [api_deployment]"
    "c_Get_pod example_env ([] @ [GetLabels Map.empty]) ?u = Inr [pod_waiting]"
    by (simp_all add: example_env_def api_cluster_def)
  have a: "getService example_env ?u Map.empty [] = Panics IndexOutOfRange"
    using getService_ports_index [OF g] by simp
  have b: "getService example_env
     ((api_cluster [api_deployment\<lparr>kd_Conditions := []\<rparr>] [pod_waiting\<lparr>kp_Containers := []\<rparr>]))
     Map.empty [] \<noteq> Panics IndexOutOfRange"
    using getService_ports_index [where opts = "[]" and labels = Map.empty, OF example_gets,
        of "[api_deployment\<lparr>kd_Conditions := []\<rparr>]" "[pod_waiting\<lparr>kp_Containers := []\<rparr>]"]
      api_service_facts(1)
    by simp
  show ?thesis using a b by simp
qed


end
